theory Spec2Isabelle
  imports Complex_Main "HOL-Library.Multiset" "HOL-Library.Product_Lexorder"
begin

section \<open>Numbers and failures\<close>

text \<open>
  The program computes with Python floats. They are modelled by the real numbers: every
  arithmetic operation is exact, so rounding, overflow and NaN are outside the model.
  What Python does beyond returning a number is kept: \<open>/\<close> raises
  \<open>ZeroDivisionError\<close> on a zero divisor, \<open>math.sqrt\<close> raises \<open>ValueError\<close>
  on a negative argument, and indexing a list out of range raises \<open>IndexError\<close>.
\<close>

datatype value_error =
    MathDomain            \<comment> \<open>the \<open>ValueError\<close> of \<open>math.sqrt\<close>\<close>
  | HoleCorrection nat    \<comment> \<open>"Failed to compute open hole correction for hole n. Is it too small?"\<close>

datatype error =
    IndexError
  | ZeroDivisionError
  | ValueError value_error
  | TypeError

definition bind_res :: "error + 'a \<Rightarrow> ('a \<Rightarrow> error + 'b) \<Rightarrow> error + 'b" where
  "bind_res m f = (case m of Inl e \<Rightarrow> Inl e | Inr x \<Rightarrow> f x)"

definition div_py :: "real \<Rightarrow> real \<Rightarrow> error + real" where
  "div_py a b = (if b = 0 then Inl ZeroDivisionError else Inr (a / b))"


definition nth_py :: "'a list \<Rightarrow> nat \<Rightarrow> error + 'a" where
  "nth_py xs i = (if i < length xs then Inr (xs ! i) else Inl IndexError)"

text \<open>A list comprehension over fallible elements stops at the first failure.\<close>

fun map_res :: "('a \<Rightarrow> error + 'b) \<Rightarrow> 'a list \<Rightarrow> error + 'b list" where
  "map_res f [] = Inr []"
| "map_res f (x # xs) =
     bind_res (f x) (\<lambda>y. bind_res (map_res f xs) (\<lambda>ys. Inr (y # ys)))"

section \<open>Constants\<close>

definition SOUND_VEL :: real where
  "SOUND_VEL = 345 * 10 ^ 3"


section \<open>Pipe\<close>

record Pipe =
  diam :: real
  thick :: real

definition end_adj :: "Pipe \<Rightarrow> real" where
  "end_adj p = 0.8 * diam p"

section \<open>VibratingPipe\<close>

record VibratingPipe =
  pipe :: Pipe
  emb_diam :: real
  freq :: real

definition theoric_length :: "'a VibratingPipe_scheme \<Rightarrow> error + real" where
  "theoric_length v = bind_res (div_py SOUND_VEL (freq v)) (\<lambda>x. div_py x 2)"

definition VibratingPipe_end_pos :: "'a VibratingPipe_scheme \<Rightarrow> error + real" where
  "VibratingPipe_end_pos v = bind_res (theoric_length v) (\<lambda>l. Inr (l - end_adj (pipe v)))"

definition thick_emb :: "'a VibratingPipe_scheme \<Rightarrow> real" where
  "thick_emb v = diam (pipe v) / 2 + thick (pipe v) + 0.307 * emb_diam v"

definition VibratingPipe_emb_adj :: "'a VibratingPipe_scheme \<Rightarrow> error + real" where
  "VibratingPipe_emb_adj v =
     bind_res (div_py (diam (pipe v)) (emb_diam v))
       (\<lambda>diam_ratio. Inr (diam_ratio ^ 2 * thick_emb v))"

text \<open>
  \<open>emb_loc\<close> is written once, in \<open>VibratingPipe\<close>, and calls \<open>self.end_pos()\<close>
  and \<open>self.emb_adj()\<close>, which the subclasses override. The model has one
  \<open>emb_loc\<close> for each class, each with the methods that class dispatches to.
\<close>

definition VibratingPipe_emb_loc :: "'a VibratingPipe_scheme \<Rightarrow> error + real" where
  "VibratingPipe_emb_loc v =
     bind_res (VibratingPipe_end_pos v)
       (\<lambda>e. bind_res (VibratingPipe_emb_adj v) (\<lambda>a. Inr (e - a)))"

section \<open>QuenaBody and ClarinetBody\<close>

definition lips_coverage :: real where
  "lips_coverage = 0.15"

definition QuenaBody_init :: "Pipe \<Rightarrow> real \<Rightarrow> real \<Rightarrow> VibratingPipe" where
  "QuenaBody_init p f emb_size =
     \<lparr>pipe = p, emb_diam = emb_size * sqrt (1 + pi / 4), freq = f\<rparr>"

definition QuenaBody_emb_adj :: "'a VibratingPipe_scheme \<Rightarrow> error + real" where
  "QuenaBody_emb_adj v =
     bind_res (VibratingPipe_emb_adj v) (\<lambda>a. Inr (a * (1 - lips_coverage)))"

definition QuenaBody_emb_loc :: "'a VibratingPipe_scheme \<Rightarrow> error + real" where
  "QuenaBody_emb_loc v =
     bind_res (VibratingPipe_end_pos v)
       (\<lambda>e. bind_res (QuenaBody_emb_adj v) (\<lambda>a. Inr (e - a)))"

definition ClarinetBody_init :: "Pipe \<Rightarrow> real \<Rightarrow> VibratingPipe" where
  "ClarinetBody_init p f = \<lparr>pipe = p, emb_diam = diam p, freq = f\<rparr>"

text \<open>\<open>ClarinetBody\<close> overrides nothing: its \<open>emb_loc\<close> is the one of \<open>VibratingPipe\<close>.\<close>

definition ClarinetBody_emb_loc :: "'a VibratingPipe_scheme \<Rightarrow> error + real" where
  "ClarinetBody_emb_loc v = VibratingPipe_emb_loc v"

text \<open>\<open>approx(expected, rel)\<close> of the tests: within \<open>rel\<close> times the expected value.\<close>

definition approx :: "real \<Rightarrow> real \<Rightarrow> real \<Rightarrow> bool" where
  "approx expected rel x = (\<bar>x - expected\<bar> \<le> rel * \<bar>expected\<bar>)"

section \<open>Quena\<close>

record Quena = VibratingPipe +
  ring :: bool
  holes_freqs :: "real list"
  holes_diams :: "real list"

definition ring_offset :: real where
  "ring_offset = 23.58"

text \<open>
  The \<open>holes_diams\<close> argument is dynamically typed: one number for all holes, or a
  sequence with one diameter for each hole.
\<close>

datatype diams_arg = Scalar real | Sequence "real list"

text \<open>
  Modelled from the spec: \<open>utils.iterable\<close> is imported by \<open>instruments.py\<close> and is not
  among the sources. The spec's input description has \<open>holeDiameters\<close> as a "scalar
  float broadcast to all holes, or a sequence of float matching holeFrequencies length",
  and the constructor's docstring says "If a numeric value is provided, it will be used
  for all holes": the test is true of a sequence and false of a number.
\<close>

definition iterable :: "diams_arg \<Rightarrow> bool" where
  "iterable a = (case a of Scalar d \<Rightarrow> False | Sequence ds \<Rightarrow> True)"

text \<open>
  The constructor. An omitted \<open>holes_diams\<close> or \<open>ring\<close> is \<open>None\<close> here and takes the
  default of the signature (\<open>holes_diams=5\<close>, \<open>ring=False\<close>). \<open>sorted\<close> on the zipped
  pairs compares tuples, first by frequency and then by diameter, which is the
  lexicographic order of pairs. \<open>len\<close> of a number is a \<open>TypeError\<close>; with \<open>iterable\<close>
  as above neither \<open>TypeError\<close> branch is ever taken.
\<close>

definition Quena_init ::
  "Pipe \<Rightarrow> real \<Rightarrow> real list \<Rightarrow> real \<Rightarrow> diams_arg option \<Rightarrow> bool option \<Rightarrow> error + Quena" where
  "Quena_init p f holes_freqs_arg emb_size holes_diams_arg ring_arg =
     (let hd_arg = (case holes_diams_arg of None \<Rightarrow> Scalar 5 | Some a \<Rightarrow> a);
          r = (case ring_arg of None \<Rightarrow> False | Some b \<Rightarrow> b);
          hf = sort holes_freqs_arg
      in bind_res
           (if iterable hd_arg then
              (case hd_arg of
                 Sequence ds \<Rightarrow>
                   if length ds \<noteq> length holes_freqs_arg then Inl IndexError
                   else Inr (map snd (sort (zip holes_freqs_arg ds)))
               | Scalar d \<Rightarrow> Inl TypeError)
            else
              (case hd_arg of
                 Scalar d \<Rightarrow> Inr (replicate (length holes_freqs_arg) d)
               | Sequence ds \<Rightarrow> Inl TypeError))
           (\<lambda>diams. Inr (VibratingPipe.extend (QuenaBody_init p f emb_size)
                    \<lparr>ring = r, holes_freqs = hf, holes_diams = diams\<rparr>)))"

definition holes_nb :: "Quena \<Rightarrow> nat" where
  "holes_nb q = length (holes_freqs q)"

subsection \<open>Corrections\<close>

definition ring_adj :: "Quena \<Rightarrow> real" where
  "ring_adj q = (if ring q then ring_offset else 0)"

definition closed_adj :: "Quena \<Rightarrow> nat \<Rightarrow> error + real" where
  "closed_adj q n =
     (let free_thick = thick (pipe q) / 10
      in bind_res (nth_py (holes_diams q) n)
           (\<lambda>d. bind_res (div_py d (diam (pipe q)))
              (\<lambda>r. Inr (free_thick * r ^ 2))))"

text \<open>
  \<open>b = b or self.holes_nb\<close>: an omitted \<open>b\<close> and a \<open>b\<close> of 0 both become the number
  of holes. \<open>sum\<close> adds the list from the left, starting from 0; over the reals that is
  \<open>sum_list\<close>.
\<close>

definition cum_closed_adj :: "Quena \<Rightarrow> nat \<Rightarrow> nat option \<Rightarrow> error + real" where
  "cum_closed_adj q a b =
     (let b' = (case b of None \<Rightarrow> holes_nb q | Some k \<Rightarrow> if k = 0 then holes_nb q else k)
      in bind_res (map_res (closed_adj q) [a..<b']) (\<lambda>xs. Inr (sum_list xs)))"


definition Quena_end_pos :: "Quena \<Rightarrow> error + real" where
  "Quena_end_pos q =
     bind_res (VibratingPipe_end_pos q)
       (\<lambda>e. bind_res (cum_closed_adj q 0 None)
          (\<lambda>c. Inr (e - ring_adj q - c)))"


definition Quena_emb_loc :: "Quena \<Rightarrow> error + real" where
  "Quena_emb_loc q =
     bind_res (Quena_end_pos q)
       (\<lambda>e. bind_res (QuenaBody_emb_adj q) (\<lambda>a. Inr (e - a)))"

subsection \<open>The tone-hole solver\<close>











section \<open>Example instruments\<close>




section \<open>The solver as the specification words it\<close>









section \<open>Basic facts about the failure model\<close>

lemma bind_res_simps:
  "bind_res (Inl e) f = Inl e" "bind_res (Inr x) f = f x"
  by (simp_all add: bind_res_def)

lemma div_py_simps:
  "b \<noteq> 0 \<Longrightarrow> div_py a b = Inr (a / b)" "div_py a 0 = Inl ZeroDivisionError"
  by (simp_all add: div_py_def)

lemma sqrt_pos_aux: "0 < sqrt (1 + pi / 4)"
  by (simp add: add_pos_nonneg)

section \<open>The resonator and its embouchure\<close>

lemma VibratingPipe_end_pos_value:
  "freq v \<noteq> 0 \<Longrightarrow> VibratingPipe_end_pos v = Inr (SOUND_VEL / freq v / 2 - 0.8 * diam (pipe v))"
  by (simp add: VibratingPipe_end_pos_def theoric_length_def end_adj_def bind_res_simps
      div_py_simps)

lemma QuenaBody_emb_adj_value:
  assumes "emb_size \<noteq> 0"
  shows "QuenaBody_emb_adj (QuenaBody_init p f emb_size) =
           Inr ((diam p / (emb_size * sqrt (1 + pi / 4))) ^ 2
                * (diam p / 2 + thick p + 0.307 * (emb_size * sqrt (1 + pi / 4)))
                * (1 - 0.15))"
proof -
  have "emb_size * sqrt (1 + pi / 4) \<noteq> 0"
    using assms sqrt_pos_aux by simp
  then show ?thesis
    by (simp add: QuenaBody_init_def QuenaBody_emb_adj_def VibratingPipe_emb_adj_def
        thick_emb_def lips_coverage_def bind_res_simps div_py_simps)
qed

text \<open>
  Claim C5. A \<open>QuenaBody\<close> built from an embouchure opening size \<open>s\<close> has the
  embouchure diameter \<open>s * sqrt (1 + pi / 4)\<close>, and its embouchure correction is the
  base correction \<open>(diam / emb_diam)\<^sup>2 * (diam / 2 + thick + 0.307 * emb_diam)\<close> times
  \<open>1 - 0.15\<close>. The size is not zero: with a zero size the division by the embouchure
  diameter raises \<open>ZeroDivisionError\<close>.
\<close>

theorem QuenaBody_emb_diam_and_adj:
  assumes "emb_size \<noteq> 0"
  shows "emb_diam (QuenaBody_init p f emb_size) = emb_size * sqrt (1 + pi / 4) \<and>
         QuenaBody_emb_adj (QuenaBody_init p f emb_size) =
           Inr ((diam p / emb_diam (QuenaBody_init p f emb_size)) ^ 2
                * (diam p / 2 + thick p + 0.307 * emb_diam (QuenaBody_init p f emb_size))
                * (1 - 0.15))"
proof -
  have "emb_diam (QuenaBody_init p f emb_size) = emb_size * sqrt (1 + pi / 4)"
    by (simp add: QuenaBody_init_def)
  then show ?thesis
    using QuenaBody_emb_adj_value [OF assms, of p f] by simp
qed

theorem QuenaBody_emb_diam_and_adj_witness:
  "emb_diam (QuenaBody_init \<lparr>diam = 18, thick = 3.5\<rparr> 440 9.5) = 9.5 * sqrt (1 + pi / 4) \<and>
   QuenaBody_emb_adj (QuenaBody_init \<lparr>diam = 18, thick = 3.5\<rparr> 440 9.5) =
     Inr ((18 / (9.5 * sqrt (1 + pi / 4))) ^ 2
          * (18 / 2 + 3.5 + 0.307 * (9.5 * sqrt (1 + pi / 4))) * (1 - 0.15))"
  using QuenaBody_emb_diam_and_adj [of "9.5" "\<lparr>diam = 18, thick = 3.5\<rparr>" 440]
  by (simp add: QuenaBody_init_def)

lemma correction_decreasing:
  fixes D c d1 d2 :: real
  assumes D: "D \<noteq> 0" and c: "0 \<le> c" and d1: "0 < d1" and lt: "d1 < d2"
  shows "(D / d2) ^ 2 * (c + 0.307 * d2) * (1 - 0.15) < (D / d1) ^ 2 * (c + 0.307 * d1) * (1 - 0.15)"
proof -
  have d2: "0 < d2" using d1 lt by simp
  have sq: "d1 ^ 2 < d2 ^ 2"
    using d1 lt by (simp add: power_strict_mono)
  have "c / d2 ^ 2 \<le> c / d1 ^ 2"
    using c d1 sq by (simp add: frac_le)
  moreover have "0.307 / d2 < 0.307 / d1"
    using d1 lt by (simp add: frac_less2)
  ultimately have "c / d2 ^ 2 + 0.307 / d2 < c / d1 ^ 2 + 0.307 / d1"
    by simp
  moreover have "0 < D ^ 2 * (1 - 0.15)"
    using D by simp
  ultimately have "D ^ 2 * (1 - 0.15) * (c / d2 ^ 2 + 0.307 / d2)
      < D ^ 2 * (1 - 0.15) * (c / d1 ^ 2 + 0.307 / d1)"
    by (rule mult_strict_left_mono)
  moreover have "(D / d) ^ 2 * (c + 0.307 * d) * (1 - 0.15)
      = D ^ 2 * (1 - 0.15) * (c / d ^ 2 + 0.307 / d)" if "0 < d" for d
    using that by (simp add: field_simps power2_eq_square)
  ultimately show ?thesis
    using d1 d2 by simp
qed

text \<open>
  Claim C9. With the bore (of positive inner diameter and non-negative wall thickness)
  and the target frequency fixed, a larger embouchure opening size gives a strictly
  smaller embouchure correction: for sizes \<open>0 < s1 < s2\<close> both corrections are
  computed and the one at \<open>s2\<close> is strictly below the one at \<open>s1\<close>.
\<close>

theorem emb_adj_strictly_decreasing:
  assumes "0 < diam p" and "0 \<le> thick p" and "0 < s1" and "s1 < s2"
  shows "\<exists>a1 a2. QuenaBody_emb_adj (QuenaBody_init p f s1) = Inr a1
           \<and> QuenaBody_emb_adj (QuenaBody_init p f s2) = Inr a2 \<and> a2 < a1"
proof -
  let ?k = "sqrt (1 + pi / 4)"
  have "0 < s1 * ?k" "s1 * ?k < s2 * ?k"
    using assms sqrt_pos_aux by simp_all
  moreover have "diam p \<noteq> 0" "0 \<le> diam p / 2 + thick p"
    using assms by simp_all
  ultimately have "(diam p / (s2 * ?k)) ^ 2 * (diam p / 2 + thick p + 0.307 * (s2 * ?k)) * (1 - 0.15)
      < (diam p / (s1 * ?k)) ^ 2 * (diam p / 2 + thick p + 0.307 * (s1 * ?k)) * (1 - 0.15)"
    by (intro correction_decreasing)
  moreover have "s1 \<noteq> 0" "s2 \<noteq> 0" using assms by simp_all
  ultimately show ?thesis
    using QuenaBody_emb_adj_value [of s1 p f] QuenaBody_emb_adj_value [of s2 p f]
    by blast
qed

theorem emb_adj_strictly_decreasing_witness:
  "\<exists>a1 a2. QuenaBody_emb_adj (QuenaBody_init \<lparr>diam = 18, thick = 3.5\<rparr> 440 9) = Inr a1
           \<and> QuenaBody_emb_adj (QuenaBody_init \<lparr>diam = 18, thick = 3.5\<rparr> 440 10) = Inr a2 \<and> a2 < a1"
  using emb_adj_strictly_decreasing [of "\<lparr>diam = 18, thick = 3.5\<rparr>" 9 10 440]
  by simp




subsection \<open>The reference measurements\<close>

lemma pi_ge_3: "3 \<le> pi"
proof -
  have "sin (pi / 6) \<le> pi / 6"
    by (rule sin_x_le_x) simp
  then show ?thesis by (simp add: sin_30)
qed

lemma sqrt_quarter_pi_bounds:
  "1.32 \<le> sqrt (1 + pi / 4)" "sqrt (1 + pi / 4) \<le> 1.4143"
proof -
  have "(1.32::real) ^ 2 \<le> 1 + pi / 4"
    using pi_ge_3 by (simp add: power2_eq_square)
  then show "1.32 \<le> sqrt (1 + pi / 4)"
    by (rule real_le_rsqrt)
  have "1 + pi / 4 \<le> (1.4143::real) ^ 2"
    using pi_less_4 by (simp add: power2_eq_square)
  then show "sqrt (1 + pi / 4) \<le> 1.4143"
    by (intro real_le_lsqrt) simp_all
qed

lemma emb_adj_bounds_aux:
  fixes s :: real
  assumes s: "1.32 \<le> s" "s \<le> 1.4143" and w: "1.75 \<le> s ^ 2" "s ^ 2 \<le> 2"
  defines "a \<equiv> (18 / (9.5 * s)) ^ 2 * (18 / 2 + 3.5 + 0.307 * (9.5 * s)) * (1 - 0.15)"
  shows "24.93 \<le> a" and "a \<le> 28.99"
proof -
  define r where "r = 324 / (90.25 * s ^ 2)"
  define t where "t = 18 / 2 + 3.5 + 0.307 * (9.5 * s)"
  have a: "a = r * t * 0.85"
    unfolding a_def r_def t_def using s by (simp add: power_divide power_mult_distrib)
  have r_lo: "324 / (90.25 * 2) \<le> r"
    unfolding r_def using w s by (intro frac_le) simp_all
  have r_hi: "r \<le> 324 / (90.25 * 1.75)"
    unfolding r_def using w s by (intro frac_le) simp_all
  have t_lo: "12.5 + 0.307 * (9.5 * 1.32) \<le> t"
    unfolding t_def using s by simp
  have t_hi: "t \<le> 12.5 + 0.307 * (9.5 * 1.4143)"
    unfolding t_def using s by simp
  have "0 \<le> r"
    using r_lo by simp
  then have "324 / (90.25 * 2) * (12.5 + 0.307 * (9.5 * 1.32)) \<le> r * t"
    using r_lo t_lo by (intro mult_mono) simp_all
  moreover have "(29.34 :: real) \<le> 324 / (90.25 * 2) * (12.5 + 0.307 * (9.5 * 1.32))"
    by simp
  ultimately have "29.34 \<le> r * t"
    by (rule order_trans [rotated])
  then show "24.93 \<le> a"
    unfolding a by simp
  have "0 \<le> t"
    using t_lo by simp
  then have "r * t \<le> 324 / (90.25 * 1.75) * (12.5 + 0.307 * (9.5 * 1.4143))"
    using r_hi t_hi by (intro mult_mono) simp_all
  moreover have "324 / (90.25 * 1.75) * (12.5 + 0.307 * (9.5 * 1.4143)) \<le> (34.105 :: real)"
    by simp
  ultimately have "r * t \<le> 34.105"
    by (rule order_trans)
  then show "a \<le> 28.99"
    unfolding a by simp
qed

lemma quena_emb_adj_bounds:
  "24.93 \<le> (18 / (9.5 * sqrt (1 + pi / 4))) ^ 2
      * (18 / 2 + 3.5 + 0.307 * (9.5 * sqrt (1 + pi / 4))) * (1 - 0.15)"
  "(18 / (9.5 * sqrt (1 + pi / 4))) ^ 2
      * (18 / 2 + 3.5 + 0.307 * (9.5 * sqrt (1 + pi / 4))) * (1 - 0.15) \<le> 28.99"
proof -
  have s2: "(sqrt (1 + pi / 4)) ^ 2 = 1 + pi / 4"
    by (simp add: add_nonneg_nonneg)
  have w: "1.75 \<le> (sqrt (1 + pi / 4)) ^ 2" "(sqrt (1 + pi / 4)) ^ 2 \<le> 2"
    unfolding s2 using pi_ge_3 pi_less_4 by simp_all
  show "24.93 \<le> (18 / (9.5 * sqrt (1 + pi / 4))) ^ 2
      * (18 / 2 + 3.5 + 0.307 * (9.5 * sqrt (1 + pi / 4))) * (1 - 0.15)"
    by (rule emb_adj_bounds_aux(1) [OF sqrt_quarter_pi_bounds w])
  show "(18 / (9.5 * sqrt (1 + pi / 4))) ^ 2
      * (18 / 2 + 3.5 + 0.307 * (9.5 * sqrt (1 + pi / 4))) * (1 - 0.15) \<le> 28.99"
    by (rule emb_adj_bounds_aux(2) [OF sqrt_quarter_pi_bounds w])
qed

text \<open>
  Claim C3, as the code has it. The two reference measurements are those of a
  lip-covered embouchure of opening size 9.5 (the \<open>QuenaBody\<close> of the tests): on the
  bore of inner diameter 18 and wall thickness 3.5, the embouchure location at 317.66 Hz
  is within 1% of 499.0, and at 426.58 Hz within 1% of 361.5.
\<close>

theorem QuenaBody_emb_loc_measures:
  "\<exists>x y. QuenaBody_emb_loc (QuenaBody_init \<lparr>diam = 18, thick = 3.5\<rparr> 317.66 9.5) = Inr x
       \<and> approx 499 0.01 x
       \<and> QuenaBody_emb_loc (QuenaBody_init \<lparr>diam = 18, thick = 3.5\<rparr> 426.58 9.5) = Inr y
       \<and> approx 361.5 0.01 y"
proof -
  define a :: real where "a = (18 / (9.5 * sqrt (1 + pi / 4))) ^ 2
      * (18 / 2 + 3.5 + 0.307 * (9.5 * sqrt (1 + pi / 4))) * (1 - 0.15)"
  have a: "24.93 \<le> a" "a \<le> 28.99"
    unfolding a_def by (rule quena_emb_adj_bounds)+
  have adj: "QuenaBody_emb_adj (QuenaBody_init \<lparr>diam = 18, thick = 3.5\<rparr> f 9.5) = Inr a" for f
    unfolding a_def using QuenaBody_emb_adj_value [of "9.5" "\<lparr>diam = 18, thick = 3.5\<rparr>" f]
    by simp
  have loc: "QuenaBody_emb_loc (QuenaBody_init \<lparr>diam = 18, thick = 3.5\<rparr> f 9.5)
      = Inr (SOUND_VEL / f / 2 - 0.8 * 18 - a)" if "f \<noteq> 0" for f
    unfolding QuenaBody_emb_loc_def adj
    using that VibratingPipe_end_pos_value [of "QuenaBody_init \<lparr>diam = 18, thick = 3.5\<rparr> f 9.5"]
    by (simp add: bind_res_simps QuenaBody_init_def)
  have near: "approx m 0.01 (e - a)"
    if "0 \<le> m" and "e \<le> 1.01 * m + 24.93" and "e \<ge> 0.99 * m + 28.99" for m e :: real
  proof -
    have "e - a - m \<le> 0.01 * m" "- (e - a - m) \<le> 0.01 * m"
      using that a by (simp_all add: algebra_simps)
    moreover have "\<bar>m\<bar> = m"
      using that by simp
    ultimately show ?thesis
      unfolding approx_def by (simp only: abs_le_iff)
  qed
  have "approx 499 0.01 (SOUND_VEL / 317.66 / 2 - 0.8 * 18 - a)"
    by (rule near) (simp_all add: SOUND_VEL_def)
  moreover have "approx 361.5 0.01 (SOUND_VEL / 426.58 / 2 - 0.8 * 18 - a)"
    by (rule near) (simp_all add: SOUND_VEL_def)
  ultimately show ?thesis
    using loc [of "317.66"] loc [of "426.58"] by simp
qed

text \<open>
  Claim C3 as stated fails: with the direct-bore embouchure (\<open>ClarinetBody\<close>) on the
  same bore, the embouchure location at 317.66 Hz is about 510.6, more than 1% away from
  499.0.
\<close>

theorem ClarinetBody_emb_loc_not_near_499:
  "ClarinetBody_emb_loc (ClarinetBody_init \<lparr>diam = 18, thick = 3.5\<rparr> 317.66)
     = Inr (345000 / 317.66 / 2 - 14.4 - 18.026)
   \<and> \<not> approx 499 0.01 (345000 / 317.66 / 2 - 14.4 - 18.026)"
  by (simp add: ClarinetBody_emb_loc_def ClarinetBody_init_def VibratingPipe_emb_loc_def
      VibratingPipe_end_pos_value VibratingPipe_emb_adj_def thick_emb_def bind_res_simps
      div_py_simps approx_def SOUND_VEL_def)

section \<open>The Quena constructor\<close>

lemma sorted_map_fst:
  fixes ps :: "('a::linorder \<times> 'b::linorder) list"
  shows "sorted ps \<Longrightarrow> sorted (map fst ps)"
  by (induction ps) (auto simp: less_eq_prod_def)

lemma map_fst_sort_zip:
  fixes xs :: "'a::linorder list" and ys :: "'b::linorder list"
  assumes "length ys = length xs"
  shows "map fst (sort (zip xs ys)) = sort xs"
proof -
  have "mset (map fst (sort (zip xs ys))) = mset (map fst (zip xs ys))"
    by (simp only: mset_map mset_sort)
  then have "mset (map fst (sort (zip xs ys))) = mset xs"
    using assms by simp
  moreover have "sorted (map fst (sort (zip xs ys)))"
    by (rule sorted_map_fst) simp
  ultimately show ?thesis
    by (rule properties_for_sort [symmetric])
qed

lemma Quena_init_Sequence:
  assumes "length ds = length hf"
  shows "Quena_init p f hf es (Some (Sequence ds)) r =
     Inr (VibratingPipe.extend (QuenaBody_init p f es)
            \<lparr>ring = (case r of None \<Rightarrow> False | Some b \<Rightarrow> b), holes_freqs = sort hf,
              holes_diams = map snd (sort (zip hf ds))\<rparr>)"
  using assms by (simp add: Quena_init_def iterable_def bind_res_simps)

lemma Quena_init_Scalar:
  "Quena_init p f hf es (Some (Scalar d)) r =
     Inr (VibratingPipe.extend (QuenaBody_init p f es)
            \<lparr>ring = (case r of None \<Rightarrow> False | Some b \<Rightarrow> b), holes_freqs = sort hf,
              holes_diams = replicate (length hf) d\<rparr>)"
  by (simp add: Quena_init_def iterable_def bind_res_simps)

lemma Quena_init_omitted:
  "Quena_init p f hf es None r = Quena_init p f hf es (Some (Scalar 5)) r"
  by (simp add: Quena_init_def)

lemma Quena_init_mismatch:
  "length ds \<noteq> length hf \<Longrightarrow> Quena_init p f hf es (Some (Sequence ds)) r = Inl IndexError"
  by (simp add: Quena_init_def iterable_def bind_res_simps)

lemma extend_fields:
  "holes_freqs (VibratingPipe.extend v \<lparr>ring = r, holes_freqs = hf, holes_diams = hds\<rparr>) = hf"
  "holes_diams (VibratingPipe.extend v \<lparr>ring = r, holes_freqs = hf, holes_diams = hds\<rparr>) = hds"
  "ring (VibratingPipe.extend v \<lparr>ring = r, holes_freqs = hf, holes_diams = hds\<rparr>) = r"
  "pipe (VibratingPipe.extend v \<lparr>ring = r, holes_freqs = hf, holes_diams = hds\<rparr>) = pipe v"
  "freq (VibratingPipe.extend v \<lparr>ring = r, holes_freqs = hf, holes_diams = hds\<rparr>) = freq v"
  "emb_diam (VibratingPipe.extend v \<lparr>ring = r, holes_freqs = hf, holes_diams = hds\<rparr>) = emb_diam v"
  by (simp_all add: VibratingPipe.defs)

text \<open>
  Claim C6. Every \<open>Quena\<close> the constructor returns stores its hole frequencies sorted
  in ascending order (a permutation of the frequencies given), with as many diameters as
  frequencies. When a diameter sequence was given, the stored diameters are a permutation
  of it, aligned to the sorted frequencies: the stored (frequency, diameter) pairs are a
  permutation of the pairs given.
\<close>

theorem Quena_init_sorted_aligned:
  assumes "Quena_init p f hf es a r = Inr q"
  shows "sorted (holes_freqs q) \<and> mset (holes_freqs q) = mset hf
       \<and> length (holes_diams q) = length (holes_freqs q)
       \<and> (\<forall>ds. a = Some (Sequence ds) \<longrightarrow>
            mset (holes_diams q) = mset ds
          \<and> mset (zip (holes_freqs q) (holes_diams q)) = mset (zip hf ds))"
proof -
  have "holes_freqs q = sort hf \<and> length (holes_diams q) = length hf"
  proof (cases a)
    case None
    then show ?thesis
      using assms by (auto simp: Quena_init_omitted Quena_init_Scalar extend_fields)
  next
    case (Some x)
    show ?thesis
    proof (cases x)
      case (Scalar d)
      then show ?thesis
        using assms Some by (auto simp: Quena_init_Scalar extend_fields)
    next
      case (Sequence ds)
      then show ?thesis
        using assms Some
        by (cases "length ds = length hf")
          (auto simp: Quena_init_Sequence Quena_init_mismatch extend_fields)
    qed
  qed
  then have freqs: "holes_freqs q = sort hf" and len: "length (holes_diams q) = length hf"
    by simp_all
  have seq: "mset (holes_diams q) = mset ds
      \<and> mset (zip (holes_freqs q) (holes_diams q)) = mset (zip hf ds)"
    if a: "a = Some (Sequence ds)" for ds
  proof -
    have eq: "length ds = length hf"
      using assms Quena_init_mismatch [of ds hf p f es r] unfolding a by auto
    then have diams: "holes_diams q = map snd (sort (zip hf ds))"
      using assms unfolding a by (auto simp: Quena_init_Sequence extend_fields)
    have "mset (holes_diams q) = mset (map snd (zip hf ds))"
      unfolding diams by (simp only: mset_map mset_sort)
    then have "mset (holes_diams q) = mset ds"
      using eq by simp
    moreover have "zip (holes_freqs q) (holes_diams q) = sort (zip hf ds)"
      unfolding freqs diams map_fst_sort_zip [OF eq, symmetric] by (rule zip_map_fst_snd)
    ultimately show ?thesis
      by simp
  qed
  show ?thesis
    using freqs len seq by simp
qed

theorem Quena_init_sorted_aligned_witness:
  "\<exists>q. Quena_init \<lparr>diam = 18, thick = 3.5\<rparr> 392 [494, 440, 523] 9.5 (Some (Sequence [12, 10, 9])) None
         = Inr q
     \<and> sorted (holes_freqs q) \<and> mset (holes_diams q) = mset [12, 10, 9]
     \<and> mset (zip (holes_freqs q) (holes_diams q)) = mset (zip [494, 440, 523] [12, 10, 9])"
proof -
  obtain q where q: "Quena_init \<lparr>diam = 18, thick = 3.5\<rparr> 392 [494, 440, 523] 9.5
      (Some (Sequence [12, 10, 9])) None = Inr q"
    by (simp add: Quena_init_Sequence)
  show ?thesis
    using Quena_init_sorted_aligned [OF q] q by blast
qed

text \<open>
  Claim C7. A diameter sequence whose length differs from that of the frequency sequence
  makes the constructor raise \<open>IndexError\<close>: no \<open>Quena\<close> is returned, so nothing can
  be solved.
\<close>

theorem Quena_init_length_mismatch:
  assumes "length ds \<noteq> length hf"
  shows "Quena_init p f hf es (Some (Sequence ds)) r = Inl IndexError"
  using assms by (rule Quena_init_mismatch)

theorem Quena_init_length_mismatch_witness:
  "Quena_init \<lparr>diam = 18, thick = 3.5\<rparr> 392 [440] 9.5 (Some (Sequence [10, 12])) None
     = Inl IndexError"
  using Quena_init_length_mismatch [of "[10, 12]" "[440]" "\<lparr>diam = 18, thick = 3.5\<rparr>" 392 "9.5" None]
  by simp

text \<open>
  Claim C10. A \<open>holes_diams\<close> argument that is not iterable is a number; the constructor
  then succeeds, whatever the number of frequencies, and stores that number once for each
  hole. With the argument omitted every hole gets the diameter 5.
\<close>

theorem Quena_init_scalar_broadcast:
  "(\<not> iterable a \<longrightarrow>
      (\<exists>d q. a = Scalar d \<and> Quena_init p f hf es (Some a) r = Inr q
         \<and> holes_diams q = replicate (length hf) d
         \<and> length (holes_diams q) = length (holes_freqs q)))
   \<and> (\<exists>q. Quena_init p f hf es None r = Inr q
         \<and> holes_diams q = replicate (length hf) 5)"
proof (intro conjI impI)
  assume "\<not> iterable a"
  then obtain d where "a = Scalar d"
    by (cases a) (simp_all add: iterable_def)
  then show "\<exists>d q. a = Scalar d \<and> Quena_init p f hf es (Some a) r = Inr q
         \<and> holes_diams q = replicate (length hf) d
         \<and> length (holes_diams q) = length (holes_freqs q)"
    by (simp add: Quena_init_Scalar extend_fields)
next
  show "\<exists>q. Quena_init p f hf es None r = Inr q \<and> holes_diams q = replicate (length hf) 5"
    by (simp add: Quena_init_omitted Quena_init_Scalar extend_fields)
qed

theorem Quena_init_scalar_broadcast_witness:
  "\<not> iterable (Scalar 4) \<and>
   (\<exists>q. Quena_init \<lparr>diam = 18, thick = 3.5\<rparr> 380 [450, 650, 780] 9.5 (Some (Scalar 4)) None = Inr q
      \<and> holes_diams q = [4, 4, 4])"
  using Quena_init_scalar_broadcast [of "Scalar 4" "\<lparr>diam = 18, thick = 3.5\<rparr>" 380 "[450, 650, 780]" "9.5" None]
  by (simp add: iterable_def numeral_3_eq_3) blast

section \<open>The end position of a Quena\<close>

lemma nth_py_simps:
  "i < length xs \<Longrightarrow> nth_py xs i = Inr (xs ! i)"
  "\<not> i < length xs \<Longrightarrow> nth_py xs i = Inl IndexError"
  by (simp_all add: nth_py_def)

lemma map_res_Inr:
  assumes "\<And>x. x \<in> set xs \<Longrightarrow> f x = Inr (g x)"
  shows "map_res f xs = Inr (map g xs)"
  using assms by (induction xs) (simp_all add: bind_res_simps)

lemma closed_adj_value:
  assumes "n < length (holes_diams q)" and "diam (pipe q) \<noteq> 0"
  shows "closed_adj q n = Inr (thick (pipe q) / 10 * (holes_diams q ! n / diam (pipe q)) ^ 2)"
  using assms by (simp add: closed_adj_def nth_py_simps div_py_simps bind_res_simps)

lemma cum_closed_adj_value:
  assumes "holes_nb q \<le> length (holes_diams q)" and "diam (pipe q) \<noteq> 0"
  shows "cum_closed_adj q a None =
           Inr (\<Sum>i\<leftarrow>[a..<holes_nb q]. thick (pipe q) / 10 * (holes_diams q ! i / diam (pipe q)) ^ 2)"
proof -
  have "map_res (closed_adj q) [a..<holes_nb q] =
          Inr (map (\<lambda>i. thick (pipe q) / 10 * (holes_diams q ! i / diam (pipe q)) ^ 2) [a..<holes_nb q])"
    using assms by (intro map_res_Inr closed_adj_value) simp_all
  then show ?thesis
    by (simp add: cum_closed_adj_def bind_res_simps)
qed

text \<open>
  Claim C2. For a \<open>Quena\<close> with as many diameters as frequencies (as the constructor
  builds it), a target frequency and a bore diameter other than zero, the end position
  is the base end position \<open>SOUND_VEL / (2 * freq) - 0.8 * diam\<close>, minus the ring
  adjustment (23.58 with a ring, else 0), minus the sum over all holes \<open>i\<close> of
  \<open>(thick / 10) * (holes_diams[i] / diam)\<^sup>2\<close>.
\<close>

theorem Quena_end_pos_value:
  assumes "length (holes_diams q) = length (holes_freqs q)"
    and "freq q \<noteq> 0" and "diam (pipe q) \<noteq> 0"
  shows "Quena_end_pos q =
           Inr ((SOUND_VEL / (2 * freq q) - 0.8 * diam (pipe q))
                - (if ring q then 23.58 else 0)
                - (\<Sum>i\<leftarrow>[0..<holes_nb q].
                     thick (pipe q) / 10 * (holes_diams q ! i / diam (pipe q)) ^ 2))"
proof -
  have "holes_nb q \<le> length (holes_diams q)"
    using assms(1) by (simp add: holes_nb_def)
  then show ?thesis
    using assms(2,3)
    by (simp add: Quena_end_pos_def VibratingPipe_end_pos_value cum_closed_adj_value
        ring_adj_def ring_offset_def bind_res_simps)
qed

theorem Quena_end_pos_value_witness:
  "Quena_end_pos \<lparr>pipe = \<lparr>diam = 18, thick = 3.5\<rparr>, emb_diam = 12, freq = 250,
       ring = True, holes_freqs = [400, 500], holes_diams = [9, 6]\<rparr>
     = Inr (690 - 14.4 - 23.58 - (0.35 * (1 / 4) + 0.35 * (1 / 9)))"
  using Quena_end_pos_value [of "\<lparr>pipe = \<lparr>diam = 18, thick = 3.5\<rparr>, emb_diam = 12, freq = 250,
       ring = True, holes_freqs = [400, 500], holes_diams = [9, 6]\<rparr>"]
  by (simp add: holes_nb_def SOUND_VEL_def upt_conv_Cons power2_eq_square)

section \<open>The tone-hole solver against the specification\<close>
























section \<open>Runs of the solver\<close>












































end
